theory Spec2Isabelle
  imports Main "HOL-Library.Word"
begin

section \<open>The fast collectstatic command of django-storages\<close>

text \<open>
  The module \<^verbatim>\<open>storages/management/commands/collectstatic.py\<close> overrides Django's
  \<^verbatim>\<open>collectstatic\<close> command so that a file already present on the remote storage is
  skipped when its MD5 fingerprint equals the remote entity tag. The command is embedded
  method by method. Every method takes the command object and returns it updated, next
  to a result that is either an exception (\<open>Inl\<close>) or a value (\<open>Inr\<close>).
\<close>

subsection \<open>Python values and exceptions\<close>

text \<open>
  The values that a setting or a duck-typed attribute may hold, with Python's truth
  test: \<^verbatim>\<open>None\<close>, \<^verbatim>\<open>False\<close>, zero and the empty string are false.
\<close>

datatype pyval = PyNone | PyBool bool | PyInt int | PyStr string

fun truthy :: "pyval \<Rightarrow> bool" where
  "truthy PyNone = False"
| "truthy (PyBool b) = b"
| "truthy (PyInt i) = (i \<noteq> 0)"
| "truthy (PyStr s) = (s \<noteq> [])"

text \<open>
  Exceptions. The collaborators (storages, files, Django's own command) may raise
  anything; \<open>Other\<close> stands for the exceptions the module does not cause itself.
\<close>

datatype exn = AttributeError | ValueError | IOError | Other string

type_synonym byte = "8 word"

subsection \<open>The setting\<close>

text \<open>
  \<^verbatim>\<open>AWS_FAST_COLLECTSTATIC = getattr(settings, 'AWS_FAST_COLLECTSTATIC', False)\<close>
\<close>

type_synonym settings = "string \<rightharpoonup> pyval"

definition AWS_FAST_COLLECTSTATIC :: "settings \<Rightarrow> pyval" where
  "AWS_FAST_COLLECTSTATIC settings =
     (case settings ''AWS_FAST_COLLECTSTATIC'' of None \<Rightarrow> PyBool False | Some v \<Rightarrow> v)"

subsection \<open>The remote storage\<close>

text \<open>
  The storage is duck-typed: the command probes it with \<^verbatim>\<open>hasattr\<close> and
  \<^verbatim>\<open>getattr\<close>, so each attribute is optional here (\<open>None\<close>: the object has no such
  attribute). \<open>entries\<close> is the metadata index, a dictionary from entry paths to
  entries that carry an \<^verbatim>\<open>etag\<close>; on the S3 storages it is a property that loads the
  index and may raise. An \<^verbatim>\<open>etag\<close> that is \<^verbatim>\<open>None\<close> in Python is \<open>None\<close> here.
\<close>

record entry =
  etag :: "string option"

record remote_storage =
  preload_metadata :: "pyval option"
  normalize_name :: "(string \<Rightarrow> exn + string) option"
  clean_name :: "(string \<Rightarrow> exn + string) option"
  location :: "string option"
  entries :: "(exn + (string \<rightharpoonup> entry)) option"
  exists :: "string \<Rightarrow> exn + bool"

subsection \<open>Local files\<close>

text \<open>
  A file of the source storage has its bytes and, possibly, an offset at which the
  device fails: a read that reaches this offset raises \<^verbatim>\<open>IOError\<close>. Opening a file
  gives a stream: the file object, with its cursor and its \<^verbatim>\<open>closed\<close> flag.
  \<^verbatim>\<open>source_storage.open(path)\<close> raises or returns a fresh stream.
\<close>

record local_file =
  content :: "byte list"
  bad_offset :: "nat option"

type_synonym source_storage = "string \<Rightarrow> exn + local_file"

record stream =
  data :: "byte list"
  fault :: "nat option"
  pos :: nat
  closed :: bool

definition open_file :: "local_file \<Rightarrow> stream" where
  "open_file f = \<lparr>data = content f, fault = bad_offset f, pos = 0, closed = False\<rparr>"

text \<open>
  \<^verbatim>\<open>content.read(n)\<close>: at most \<open>n\<close> bytes from the cursor, all the remaining bytes when
  \<open>n\<close> is negative, the empty byte string at the end of the file. Reading a closed file
  raises \<^verbatim>\<open>ValueError\<close>.
\<close>

definition read :: "int \<Rightarrow> stream \<Rightarrow> (exn + byte list) \<times> stream" where
  "read n f =
     (if closed f then (Inl ValueError, f)
      else
        let rest = drop (pos f) (data f);
            chunk = (if n < 0 then rest else take (nat n) rest)
        in case fault f of
             None \<Rightarrow> (Inr chunk, f\<lparr>pos := pos f + length chunk\<rparr>)
           | Some k \<Rightarrow>
               if k < pos f + length chunk then (Inl IOError, f)
               else (Inr chunk, f\<lparr>pos := pos f + length chunk\<rparr>))"

subsection \<open>The hash object\<close>

text \<open>
  \<^verbatim>\<open>hashlib.md5\<close> belongs to Python's standard library, not to this module: it is a
  parameter. \<open>md5_new\<close> is the state of a fresh hash object, \<open>md5_update\<close> feeds it a
  chunk and \<open>md5_digest\<close> gives the digest bytes of what was fed so far.
  \<^verbatim>\<open>hexdigest()\<close> writes each digest byte as two lowercase hexadecimal digits.
\<close>

record 's md5_impl =
  md5_new :: 's
  md5_update :: "'s \<Rightarrow> byte list \<Rightarrow> 's"
  md5_digest :: "'s \<Rightarrow> byte list"

definition hex_digit :: "nat \<Rightarrow> char" where
  "hex_digit n = ''0123456789abcdef'' ! (n mod 16)"

definition hex_byte :: "byte \<Rightarrow> string" where
  "hex_byte b = [hex_digit (unat b div 16), hex_digit (unat b mod 16)]"

definition hexdigest :: "'s md5_impl \<Rightarrow> 's \<Rightarrow> string" where
  "hexdigest H m = concat (map hex_byte (md5_digest H m))"

text \<open>
  The contract of \<^verbatim>\<open>hashlib\<close>: repeated calls of \<^verbatim>\<open>update\<close> are equivalent to a single
  call with the concatenation of the arguments.
\<close>

definition streaming :: "'s md5_impl \<Rightarrow> bool" where
  "streaming H \<longleftrightarrow>
     (\<forall>m a b. md5_update H (md5_update H m a) b = md5_update H m (a @ b))"

subsection \<open>The command object\<close>

text \<open>
  \<open>storage\<close> is \<^verbatim>\<open>self.storage\<close>. The other two fields are the command's view of its
  environment: \<open>trace\<close> lists, in order, the calls made on the collaborators (the
  messages given to \<^verbatim>\<open>self.log\<close>, the calls on the remote storage, the files opened),
  and \<open>files\<close> holds the file objects that were opened, as they were left.
\<close>

datatype event =
    Log string
  | Exists string
  | NormalizeName string
  | CleanName string
  | Entries
  | Open string

record command =
  storage :: remote_storage
  trace :: "event list"
  files :: "stream list"

definition emit :: "command \<Rightarrow> event \<Rightarrow> command" where
  "emit self e = self\<lparr>trace := trace self @ [e]\<rparr>"

definition log :: "command \<Rightarrow> string \<Rightarrow> command" where
  "log self msg = emit self (Log msg)"

text \<open>
  Django's \<^verbatim>\<open>collectstatic.Command.delete_file\<close>, the timestamp policy of the base
  class, is a parameter of this type: it takes the arguments of \<^verbatim>\<open>delete_file\<close> and the
  command, and returns its decision (or raises) and the command as it leaves it.
\<close>

type_synonym base_delete_file =
  "string \<Rightarrow> string \<Rightarrow> source_storage \<Rightarrow> command \<Rightarrow> (exn + bool) \<times> command"

subsection \<open>\<^verbatim>\<open>Command.__init__\<close>\<close>

text \<open>
  The constructor calls \<^verbatim>\<open>self.log\<close> on a command that the constructor of the base
  class has just built. Django's \<^verbatim>\<open>log\<close> reads \<^verbatim>\<open>self.verbosity\<close> before it writes
  (\<^verbatim>\<open>if self.verbosity >= level\<close>), and Django assigns this attribute in
  \<^verbatim>\<open>set_options\<close>, which \<^verbatim>\<open>handle\<close> calls after the constructor has returned.
  \<open>verbosity\<close> is the attribute at the time of the call, \<open>None\<close> when it is not assigned:
  then the call raises \<^verbatim>\<open>AttributeError\<close> and nothing is logged.
\<close>

definition log_with :: "int option \<Rightarrow> command \<Rightarrow> string \<Rightarrow> (exn + unit) \<times> command" where
  "log_with verbosity self msg =
     (case verbosity of
        None \<Rightarrow> (Inl AttributeError, self)
      | Some v \<Rightarrow> (Inr (), log self msg))"

text \<open>
  The argument \<open>self\<close> is the command as the constructor of the base class leaves it,
  and \<open>verbosity\<close> its \<^verbatim>\<open>verbosity\<close> attribute then: \<open>None\<close> under Django.
  \<^verbatim>\<open>getattr(self.storage, 'preload_metadata', True)\<close> is \<^verbatim>\<open>True\<close> for a storage without
  the attribute. An exception of \<^verbatim>\<open>self.log\<close> leaves the constructor before the
  assignment of \<^verbatim>\<open>preload_metadata\<close>.
\<close>

definition init :: "settings \<Rightarrow> int option \<Rightarrow> command \<Rightarrow> (exn + unit) \<times> command" where
  "init settings verbosity self =
     (if truthy (AWS_FAST_COLLECTSTATIC settings) \<and>
         \<not> truthy (case preload_metadata (storage self) of
                     None \<Rightarrow> PyBool True | Some v \<Rightarrow> v)
      then
        (case log_with verbosity self ''Forcing storage to preload metadata'' of
           (Inl e, self1) \<Rightarrow> (Inl e, self1)
         | (Inr u, self1) \<Rightarrow>
             (Inr (), self1\<lparr>storage := (storage self1)\<lparr>preload_metadata := Some (PyBool True)\<rparr>\<rparr>))
      else (Inr (), self))"

subsection \<open>\<^verbatim>\<open>Command.get_entry_path\<close>\<close>

text \<open>\<^verbatim>\<open>os.path.join(a, b)\<close> of \<^verbatim>\<open>posixpath\<close>, for two components.\<close>

definition os_path_join :: "string \<Rightarrow> string \<Rightarrow> string" where
  "os_path_join a b =
     (if b \<noteq> [] \<and> hd b = CHR ''/'' then b
      else if a = [] \<or> last a = CHR ''/'' then a @ b
      else a @ ''/'' @ b)"

text \<open>
  The probes are made on the argument \<open>stg\<close>; the location is read from
  \<^verbatim>\<open>self.storage\<close>, and reading it raises \<^verbatim>\<open>AttributeError\<close> when the storage has none.
\<close>

definition get_entry_path ::
  "command \<Rightarrow> string \<Rightarrow> remote_storage \<Rightarrow> (exn + string) \<times> command" where
  "get_entry_path self prefixed_path stg =
     (case normalize_name stg of
        Some f \<Rightarrow> (f prefixed_path, emit self (NormalizeName prefixed_path))
      | None \<Rightarrow>
         (case clean_name stg of
            Some g \<Rightarrow> (g prefixed_path, emit self (CleanName prefixed_path))
          | None \<Rightarrow>
              let self1 = log self (''Unknown storage, guessing entry path for '' @ prefixed_path)
              in case location (storage self1) of
                   None \<Rightarrow> (Inl AttributeError, self1)
                 | Some loc \<Rightarrow> (Inr (os_path_join loc prefixed_path), self1)))"

subsection \<open>\<^verbatim>\<open>Command.get_remote_hash\<close>\<close>

definition quote :: char where
  "quote = CHR 0x22"

text \<open>\<^verbatim>\<open>etag.replace('"', '')\<close> drops every quotation mark of the entity tag.\<close>

definition drop_quotes :: "string \<Rightarrow> string" where
  "drop_quotes s = filter (\<lambda>c. c \<noteq> quote) s"

text \<open>
  \<^verbatim>\<open>entries.get(entry_path)\<close> is \<^verbatim>\<open>None\<close> for a path that is not in the index, and
  \<^verbatim>\<open>None.etag\<close> raises \<^verbatim>\<open>AttributeError\<close>; so does \<^verbatim>\<open>None.replace\<close>.
\<close>

definition get_remote_hash :: "command \<Rightarrow> string \<Rightarrow> (exn + string) \<times> command" where
  "get_remote_hash self prefixed_path =
     (case get_entry_path self prefixed_path (storage self) of
        (Inl e, self1) \<Rightarrow> (Inl e, self1)
      | (Inr entry_path, self1) \<Rightarrow>
         (case entries (storage self1) of
            None \<Rightarrow> (Inl AttributeError, self1)
          | Some idx \<Rightarrow>
              let self2 = emit self1 Entries
              in case idx of
                   Inl e \<Rightarrow> (Inl e, self2)
                 | Inr d \<Rightarrow>
                    (case d entry_path of
                       None \<Rightarrow> (Inl AttributeError, self2)
                     | Some en \<Rightarrow>
                        (case etag en of
                           None \<Rightarrow> (Inl AttributeError, self2)
                         | Some t \<Rightarrow> (Inr (drop_quotes t), self2)))))"

subsection \<open>\<^verbatim>\<open>Command.get_local_hash\<close>\<close>

text \<open>
  \<^verbatim>\<open>for chunk in iter(lambda: content.read(block_size), b''): md5.update(chunk)\<close>:
  read until a read returns the empty byte string.
\<close>

function hash_chunks ::
  "'s md5_impl \<Rightarrow> int \<Rightarrow> stream \<Rightarrow> 's \<Rightarrow> (exn + 's) \<times> stream" where
  "hash_chunks H block_size f md5 =
     (case read block_size f of
        (Inl e, f1) \<Rightarrow> (Inl e, f1)
      | (Inr chunk, f1) \<Rightarrow>
          if chunk = [] then (Inr md5, f1)
          else hash_chunks H block_size f1 (md5_update H md5 chunk))"
  by pat_completeness auto
termination
proof (relation "measure (\<lambda>(H, n, f, m). length (data f) - pos f)")
  show "wf (measure (\<lambda>(H :: 's md5_impl, n :: int, f, m :: 's). length (data f) - pos f))"
    by simp
next
  fix H :: "'s md5_impl" and block_size f and md5 :: 's and x y chunk
  assume r: "(x, y) = read block_size f" and x: "x = Inr chunk" and ne: "chunk \<noteq> []"
  from r x have "read block_size f = (Inr chunk, y)" by simp
  then have "pos y = pos f + length chunk \<and> data y = data f \<and>
             length chunk \<le> length (data f) - pos f"
    by (auto simp: read_def Let_def split: if_splits option.splits)
  with ne show "((H, block_size, y, md5_update H md5 chunk), (H, block_size, f, md5))
        \<in> measure (\<lambda>(H, n, f, m). length (data f) - pos f)"
    by (cases chunk) auto
qed

declare hash_chunks.simps [simp del]

text \<open>
  The stream is opened and read to its end; the method has no \<^verbatim>\<open>close()\<close> and no
  \<^verbatim>\<open>with\<close> block. The file object, as the method leaves it, is recorded in \<open>files\<close>.
\<close>

definition get_local_hash ::
  "'s md5_impl \<Rightarrow> command \<Rightarrow> string \<Rightarrow> source_storage \<Rightarrow> int \<Rightarrow> (exn + string) \<times> command" where
  "get_local_hash H self path source_storage block_size =
     (let md5 = md5_new H;
          self1 = emit self (Open path)
      in case source_storage path of
           Inl e \<Rightarrow> (Inl e, self1)
         | Inr file \<Rightarrow>
            (case hash_chunks H block_size (open_file file) md5 of
               (Inl e, f1) \<Rightarrow> (Inl e, self1\<lparr>files := files self1 @ [f1]\<rparr>)
             | (Inr md5', f1) \<Rightarrow>
                 (Inr (hexdigest H md5'), self1\<lparr>files := files self1 @ [f1]\<rparr>)))"

text \<open>The default of the parameter: \<^verbatim>\<open>block_size=2**20\<close>.\<close>

definition default_block_size :: int where
  "default_block_size = 2 ^ 20"

subsection \<open>\<^verbatim>\<open>Command.delete_file\<close>\<close>

definition skipping_message :: "string \<Rightarrow> string" where
  "skipping_message path =
     ''Skipping '' @ [CHR 0x27] @ path @ [CHR 0x27] @ '' (not modified based on hash)''"

text \<open>
  The body of the \<^verbatim>\<open>try\<close> block: the remote hash, then the local hash, with the
  default block size. An exception of either leaves the block at once.
\<close>

definition try_hashes ::
  "'s md5_impl \<Rightarrow> command \<Rightarrow> string \<Rightarrow> string \<Rightarrow> source_storage \<Rightarrow>
     (exn + string \<times> string) \<times> command" where
  "try_hashes H self path prefixed_path source_storage =
     (case get_remote_hash self prefixed_path of
        (Inl e, self1) \<Rightarrow> (Inl e, self1)
      | (Inr remote_hash, self1) \<Rightarrow>
         (case get_local_hash H self1 path source_storage default_block_size of
            (Inl e, self2) \<Rightarrow> (Inl e, self2)
          | (Inr local_hash, self2) \<Rightarrow> (Inr (remote_hash, local_hash), self2)))"

text \<open>
  \<open>super_delete_file\<close> is \<^verbatim>\<open>super(Command, self).delete_file\<close>. The bare
  \<^verbatim>\<open>except:\<close> catches every exception of the \<^verbatim>\<open>try\<close> block and hands the decision
  to the base class; the \<^verbatim>\<open>else:\<close> branch compares the two hashes.
\<close>

definition delete_file ::
  "settings \<Rightarrow> base_delete_file \<Rightarrow> 's md5_impl \<Rightarrow> command \<Rightarrow> string \<Rightarrow> string \<Rightarrow>
     source_storage \<Rightarrow> (exn + bool) \<times> command" where
  "delete_file settings super_delete_file H self path prefixed_path source_storage =
     (if \<not> truthy (AWS_FAST_COLLECTSTATIC settings)
      then super_delete_file path prefixed_path source_storage self
      else
        let self1 = emit self (Exists prefixed_path)
        in case exists (storage self) prefixed_path of
             Inl e \<Rightarrow> (Inl e, self1)
           | Inr False \<Rightarrow> (Inr True, self1)
           | Inr True \<Rightarrow>
              (case try_hashes H self1 path prefixed_path source_storage of
                 (Inl e, self2) \<Rightarrow>
                   super_delete_file path prefixed_path source_storage self2
               | (Inr (remote_hash, local_hash), self2) \<Rightarrow>
                   if remote_hash = local_hash
                   then (Inr False, log self2 (skipping_message path))
                   else (Inr True, self2)))"

subsection \<open>Example objects\<close>

text \<open>
  A hash object that meets the contract of \<^verbatim>\<open>hashlib\<close>: its state is the sum of the
  bytes fed so far, modulo 256, and its digest is this one byte.
\<close>

definition checksum8 :: "byte md5_impl" where
  "checksum8 = \<lparr>md5_new = 0, md5_update = (\<lambda>m chunk. m + sum_list chunk),
                 md5_digest = (\<lambda>m. [m])\<rparr>"

text \<open>
  A storage in the manner of \<^verbatim>\<open>S3BotoStorage\<close>, which does not preload. It
  normalises names under \<^verbatim>\<open>static/\<close>. Its index holds \<^verbatim>\<open>a.css\<close> with the entity tag
  \<^verbatim>\<open>"06"\<close> and \<^verbatim>\<open>b.css\<close> with the entity tag \<^verbatim>\<open>"07"\<close> (quotation marks included);
  \<^verbatim>\<open>c.css\<close> exists but has no entry in the index.
\<close>

definition s3 :: remote_storage where
  "s3 = \<lparr>preload_metadata = Some (PyBool False),
          normalize_name = Some (\<lambda>p. Inr (''static/'' @ p)),
          clean_name = None,
          location = Some ''static'',
          entries = Some (Inr [''static/a.css'' \<mapsto> \<lparr>etag = Some (quote # ''06'' @ [quote])\<rparr>,
                               ''static/b.css'' \<mapsto> \<lparr>etag = Some (quote # ''07'' @ [quote])\<rparr>]),
          exists = (\<lambda>p. Inr (p = ''a.css'' \<or> p = ''b.css'' \<or> p = ''c.css''))\<rparr>"

text \<open>A storage with none of the optional attributes, on which nothing exists.\<close>

definition bare :: remote_storage where
  "bare = \<lparr>preload_metadata = None, normalize_name = None, clean_name = None,
            location = None, entries = None, exists = (\<lambda>p. Inr False)\<rparr>"

text \<open>An unknown storage: no way to normalise a name, but a location.\<close>

definition unknown :: remote_storage where
  "unknown = bare\<lparr>location := Some ''media''\<rparr>"

definition cmd :: "remote_storage \<Rightarrow> command" where
  "cmd stg = \<lparr>storage = stg, trace = [], files = []\<rparr>"

text \<open>
  A source storage with \<^verbatim>\<open>a.css\<close> and \<^verbatim>\<open>b.css\<close> (three bytes that sum to 6) and
  \<^verbatim>\<open>c.css\<close>, whose device fails at offset 2.
\<close>

definition local :: source_storage where
  "local p =
     (if p = ''a.css'' \<or> p = ''b.css'' then Inr \<lparr>content = [1, 2, 3], bad_offset = None\<rparr>
      else if p = ''c.css'' then Inr \<lparr>content = [1, 2, 3], bad_offset = Some 2\<rparr>
      else Inl IOError)"

text \<open>
  Settings with the flag on, a base class whose timestamp policy says skip, and one
  whose policy says publish.
\<close>

definition fast :: settings where
  "fast = [''AWS_FAST_COLLECTSTATIC'' \<mapsto> PyBool True]"

definition base_skips :: base_delete_file where
  "base_skips path prefixed_path source_storage self = (Inr False, self)"

definition base_deletes :: base_delete_file where
  "base_deletes path prefixed_path source_storage self =
     (Inr True, log self (''Deleting '' @ path))"

section \<open>Properties\<close>

subsection \<open>Unfolding the definitions on concrete objects\<close>

lemmas eval_defs =
  delete_file_def try_hashes_def get_remote_hash_def get_entry_path_def get_local_hash_def
  init_def log_with_def AWS_FAST_COLLECTSTATIC_def os_path_join_def
  open_file_def read_def Let_def emit_def log_def drop_quotes_def quote_def
  default_block_size_def skipping_message_def
  hexdigest_def hex_byte_def hex_digit_def hash_chunks.simps
  cmd_def s3_def bare_def unknown_def local_def fast_def base_skips_def base_deletes_def
  checksum8_def

lemma streaming_checksum8: "streaming checksum8"
  by (simp add: streaming_def checksum8_def add.assoc)

subsection \<open>Hexadecimal digests and quotation marks\<close>

lemma hex_digit_not_quote: "hex_digit n \<noteq> quote"
proof -
  have "n mod 16 < 16" by simp
  then have "n mod 16 \<in> {0..<16}" by simp
  then have "hex_digit n \<in> set ''0123456789abcdef''"
    unfolding hex_digit_def by (intro nth_mem) simp
  then show ?thesis by (auto simp: quote_def)
qed

lemma quote_notin_hexdigest: "quote \<notin> set (hexdigest H m)"
proof
  assume "quote \<in> set (hexdigest H m)"
  then obtain b where "quote \<in> set (hex_byte b)"
    by (auto simp: hexdigest_def)
  then have "hex_digit (unat b div 16) = quote \<or> hex_digit (unat b mod 16) = quote"
    by (auto simp: hex_byte_def)
  then show False by (simp add: hex_digit_not_quote)
qed

lemma drop_quotes_wrapped: "quote \<notin> set h \<Longrightarrow> drop_quotes (quote # h @ [quote]) = h"
  by (auto simp: drop_quotes_def filter_id_conv)

subsection \<open>The storage object is not replaced\<close>

lemma storage_emit: "storage (emit self e) = storage self"
  by (simp add: emit_def)

lemma storage_get_entry_path: "storage (snd (get_entry_path self p stg)) = storage self"
  by (simp add: get_entry_path_def log_def emit_def Let_def split: option.splits)

subsection \<open>The loop of \<^verbatim>\<open>get_local_hash\<close>\<close>

lemma read_ok:
  assumes "\<not> closed f" and "fault f = None" and "0 \<le> n"
  shows "read n f = (Inr (take (nat n) (drop (pos f) (data f))),
                     f\<lparr>pos := pos f + length (take (nat n) (drop (pos f) (data f)))\<rparr>)"
  using assms by (simp add: read_def Let_def)

lemma take_drop_length: "take k xs @ drop (length (take k xs)) xs = xs"
  by (metis append_eq_conv_conj append_take_drop_id)

lemma hash_chunks_result:
  "streaming H \<Longrightarrow> 1 \<le> n \<Longrightarrow> \<not> closed f \<Longrightarrow> fault f = None \<Longrightarrow>
   fst (hash_chunks H n f m) =
     Inr (if drop (pos f) (data f) = [] then m
          else md5_update H m (drop (pos f) (data f)))"
proof (induction H n f m rule: hash_chunks.induct)
  case (1 H n f m)
  define rest where "rest = drop (pos f) (data f)"
  define chunk where "chunk = take (nat n) rest"
  define f1 where "f1 = f\<lparr>pos := pos f + length chunk\<rparr>"
  define tl where "tl = drop (length chunk) rest"
  have rd: "read n f = (Inr chunk, f1)"
    using read_ok [of f n] "1.prems" by (simp add: chunk_def rest_def f1_def)
  have whole: "chunk @ tl = rest"
    unfolding tl_def chunk_def by (rule take_drop_length)
  show ?case
  proof (cases "chunk = []")
    case True
    with "1.prems"(2) have "rest = []" by (auto simp: chunk_def)
    with True rd show ?thesis
      by (subst hash_chunks.simps) (simp add: rest_def)
  next
    case False
    have f1: "\<not> closed f1" "fault f1 = None" "drop (pos f1) (data f1) = tl"
      using "1.prems" by (simp_all add: f1_def tl_def rest_def add.commute)
    have ih: "fst (hash_chunks H n f1 (md5_update H m chunk)) =
        Inr (if tl = [] then md5_update H m chunk
             else md5_update H (md5_update H m chunk) tl)"
      using "1.IH" [OF rd [symmetric] refl False "1.prems"(1,2) f1(1,2)] f1(3) by simp
    have "(if tl = [] then md5_update H m chunk
             else md5_update H (md5_update H m chunk) tl) = md5_update H m rest"
      using whole "1.prems"(1) by (auto simp: streaming_def)
    moreover have "rest \<noteq> []" using False whole by auto
    ultimately show ?thesis
      using rd False ih by (subst hash_chunks.simps) (simp add: rest_def)
  qed
qed

lemma hash_chunks_open:
  "closed (snd (hash_chunks H n f m)) = closed f"
proof (induction H n f m rule: hash_chunks.induct)
  case (1 H n f m)
  show ?case
  proof (cases "read n f")
    case (Pair x y)
    have y: "closed y = closed f"
      using Pair by (auto simp: read_def Let_def split: if_splits option.splits)
    show ?thesis
    proof (cases x)
      case (Inl e)
      with Pair y show ?thesis by (subst hash_chunks.simps) simp
    next
      case (Inr chunk)
      show ?thesis
      proof (cases "chunk = []")
        case True
        with Pair Inr y show ?thesis by (subst hash_chunks.simps) simp
      next
        case False
        from "1.IH" [OF Pair [symmetric] Inr False] y Pair Inr False
        show ?thesis by (subst hash_chunks.simps) simp
      qed
    qed
  qed
qed

subsection \<open>The decision with the flag off\<close>

text \<open>
  Claim C4. When \<^verbatim>\<open>AWS_FAST_COLLECTSTATIC\<close> is false, \<^verbatim>\<open>delete_file\<close> is the
  \<^verbatim>\<open>delete_file\<close> of the base class on the same arguments and the same command: the same
  decision and the same command afterwards, so no file is opened and the index of the
  storage is not read, whatever the hashes would be.
\<close>

theorem delete_file_flag_off:
  "\<not> truthy (AWS_FAST_COLLECTSTATIC settings) \<Longrightarrow>
   delete_file settings super_delete_file H self path prefixed_path source_storage =
     super_delete_file path prefixed_path source_storage self"
  by (simp add: delete_file_def)

theorem delete_file_flag_off_witness:
  "\<not> truthy (AWS_FAST_COLLECTSTATIC Map.empty) \<and>
   delete_file Map.empty base_deletes checksum8 (cmd s3) ''a.css'' ''a.css'' local =
     (Inr True, (cmd s3)\<lparr>trace := [Log ''Deleting a.css'']\<rparr>)"
  using delete_file_flag_off [of Map.empty base_deletes checksum8 "cmd s3" "''a.css''" "''a.css''" local]
  by (simp add: AWS_FAST_COLLECTSTATIC_def base_deletes_def log_def emit_def cmd_def)

subsection \<open>The decision with the flag on\<close>

text \<open>
  Claim C3. With the flag on, when the storage reports that nothing exists at the
  prefixed path, \<^verbatim>\<open>delete_file\<close> returns \<^verbatim>\<open>True\<close> and the existence test is the only call
  it has made: no entry path is normalised, the index is not read and no file is opened,
  so neither hash is computed.
\<close>

theorem delete_file_absent:
  "truthy (AWS_FAST_COLLECTSTATIC settings) \<Longrightarrow>
   exists (storage self) prefixed_path = Inr False \<Longrightarrow>
   delete_file settings super_delete_file H self path prefixed_path source_storage =
     (Inr True, self\<lparr>trace := trace self @ [Exists prefixed_path]\<rparr>)"
  by (simp add: delete_file_def emit_def)

theorem delete_file_absent_witness:
  "truthy (AWS_FAST_COLLECTSTATIC fast) \<and>
   exists (storage (cmd s3)) ''z.css'' = Inr False \<and>
   delete_file fast base_skips checksum8 (cmd s3) ''z.css'' ''z.css'' local =
     (Inr True, (cmd s3)\<lparr>trace := [Exists ''z.css'']\<rparr>)"
proof -
  have a: "truthy (AWS_FAST_COLLECTSTATIC fast)" by (simp add: eval_defs)
  have b: "exists (storage (cmd s3)) ''z.css'' = Inr False" by (simp add: cmd_def s3_def)
  from delete_file_absent [OF a b, of base_skips checksum8 "''z.css''" local] a b
  show ?thesis by (simp add: cmd_def)
qed

lemma delete_file_present:
  "truthy (AWS_FAST_COLLECTSTATIC settings) \<Longrightarrow>
   exists (storage self) prefixed_path = Inr True \<Longrightarrow>
   delete_file settings super_delete_file H self path prefixed_path source_storage =
     (case try_hashes H (emit self (Exists prefixed_path)) path prefixed_path source_storage of
        (Inl e, self2) \<Rightarrow> super_delete_file path prefixed_path source_storage self2
      | (Inr (remote_hash, local_hash), self2) \<Rightarrow>
          if remote_hash = local_hash
          then (Inr False, log self2 (skipping_message path))
          else (Inr True, self2))"
  by (simp add: delete_file_def)

text \<open>
  Claim C2. With the flag on and a remote object at the prefixed path, when
  \<^verbatim>\<open>get_remote_hash\<close> returns a hash (the entity tag without its quotation marks) and
  \<^verbatim>\<open>get_local_hash\<close> returns a hash, \<^verbatim>\<open>delete_file\<close> returns \<^verbatim>\<open>False\<close> (and logs that
  the file is skipped) if the two are equal, and \<^verbatim>\<open>True\<close> if they differ.
\<close>

theorem delete_file_compares:
  "truthy (AWS_FAST_COLLECTSTATIC settings) \<Longrightarrow>
   exists (storage self) prefixed_path = Inr True \<Longrightarrow>
   get_remote_hash (emit self (Exists prefixed_path)) prefixed_path = (Inr remote_hash, self1) \<Longrightarrow>
   get_local_hash H self1 path source_storage default_block_size = (Inr local_hash, self2) \<Longrightarrow>
   delete_file settings super_delete_file H self path prefixed_path source_storage =
     (if remote_hash = local_hash
      then (Inr False, log self2 (skipping_message path))
      else (Inr True, self2))"
  by (simp add: delete_file_present try_hashes_def)

theorem delete_file_compares_witness:
  "truthy (AWS_FAST_COLLECTSTATIC fast) \<and>
   exists (storage (cmd s3)) ''b.css'' = Inr True \<and>
   fst (get_remote_hash (emit (cmd s3) (Exists ''b.css'')) ''b.css'') = Inr ''07'' \<and>
   fst (get_local_hash checksum8 (snd (get_remote_hash (emit (cmd s3) (Exists ''b.css'')) ''b.css''))
          ''b.css'' local default_block_size) = Inr ''06'' \<and>
   fst (delete_file fast base_skips checksum8 (cmd s3) ''b.css'' ''b.css'' local) = Inr True"
proof -
  have a: "truthy (AWS_FAST_COLLECTSTATIC fast)" by (simp add: eval_defs)
  have b: "exists (storage (cmd s3)) ''b.css'' = Inr True" by (simp add: eval_defs)
  obtain s1 where c: "get_remote_hash (emit (cmd s3) (Exists ''b.css'')) ''b.css'' = (Inr ''07'', s1)"
    by (simp add: eval_defs)
  obtain s2 where d: "get_local_hash checksum8 s1 ''b.css'' local default_block_size = (Inr ''06'', s2)"
    by (simp add: eval_defs)
  from delete_file_compares [OF a b c d, of base_skips] a b c d
  show ?thesis by simp
qed

text \<open>
  Claim C1, as stated, fails: \<^verbatim>\<open>c.css\<close> exists on the storage but has no entry in the
  index, so obtaining the remote hash raises; the exception is caught and the base class
  decides, and a base class whose timestamp policy says skip makes \<^verbatim>\<open>delete_file\<close>
  return \<^verbatim>\<open>False\<close>.
\<close>

theorem delete_file_error_counterexample:
  "truthy (AWS_FAST_COLLECTSTATIC fast) \<and>
   exists (storage (cmd s3)) ''c.css'' = Inr True \<and>
   fst (get_remote_hash (emit (cmd s3) (Exists ''c.css'')) ''c.css'') = Inl AttributeError \<and>
   fst (delete_file fast base_skips checksum8 (cmd s3) ''c.css'' ''c.css'' local) = Inr False"
  by (simp add: eval_defs)

text \<open>
  Claim C1, amended. With the flag on and a remote object at the prefixed path, when
  \<^verbatim>\<open>get_remote_hash\<close> or \<^verbatim>\<open>get_local_hash\<close> raises, the exception is caught and
  \<^verbatim>\<open>delete_file\<close> is the \<^verbatim>\<open>delete_file\<close> of the base class, run on the command as the
  failed attempt left it: its decision, \<^verbatim>\<open>True\<close> or \<^verbatim>\<open>False\<close>, or its own exception.
  And \<^verbatim>\<open>delete_file\<close> returns \<^verbatim>\<open>False\<close> only if a remote object exists at the prefixed
  path and either both hashes were obtained and are equal, or a hash could not be
  obtained and the base class returned \<^verbatim>\<open>False\<close>.
\<close>

theorem delete_file_error_defers:
  "truthy (AWS_FAST_COLLECTSTATIC settings) \<Longrightarrow>
   (\<forall>e self1 self2 remote_hash.
      exists (storage self) prefixed_path = Inr True \<and>
      (get_remote_hash (emit self (Exists prefixed_path)) prefixed_path = (Inl e, self2) \<or>
       get_remote_hash (emit self (Exists prefixed_path)) prefixed_path = (Inr remote_hash, self1) \<and>
       get_local_hash H self1 path source_storage default_block_size = (Inl e, self2)) \<longrightarrow>
      delete_file settings super_delete_file H self path prefixed_path source_storage =
        super_delete_file path prefixed_path source_storage self2) \<and>
   (fst (delete_file settings super_delete_file H self path prefixed_path source_storage) = Inr False \<longrightarrow>
      exists (storage self) prefixed_path = Inr True \<and>
      (case try_hashes H (emit self (Exists prefixed_path)) path prefixed_path source_storage of
         (Inl e, self2) \<Rightarrow>
           fst (super_delete_file path prefixed_path source_storage self2) = Inr False
       | (Inr (remote_hash, local_hash), self2) \<Rightarrow> remote_hash = local_hash))"
proof (intro conjI allI impI)
  fix e self1 self2 remote_hash
  assume flag: "truthy (AWS_FAST_COLLECTSTATIC settings)"
  assume h: "exists (storage self) prefixed_path = Inr True \<and>
      (get_remote_hash (emit self (Exists prefixed_path)) prefixed_path = (Inl e, self2) \<or>
       get_remote_hash (emit self (Exists prefixed_path)) prefixed_path = (Inr remote_hash, self1) \<and>
       get_local_hash H self1 path source_storage default_block_size = (Inl e, self2))"
  then have "try_hashes H (emit self (Exists prefixed_path)) path prefixed_path source_storage
               = (Inl e, self2)"
    by (auto simp: try_hashes_def)
  with flag h show "delete_file settings super_delete_file H self path prefixed_path source_storage =
        super_delete_file path prefixed_path source_storage self2"
    by (simp add: delete_file_present)
next
  assume flag: "truthy (AWS_FAST_COLLECTSTATIC settings)"
  assume f: "fst (delete_file settings super_delete_file H self path prefixed_path source_storage)
               = Inr False"
  with flag show ex: "exists (storage self) prefixed_path = Inr True"
    by (auto simp: delete_file_def Let_def split: sum.splits bool.splits)
  from f show "case try_hashes H (emit self (Exists prefixed_path)) path prefixed_path source_storage of
         (Inl e, self2) \<Rightarrow>
           fst (super_delete_file path prefixed_path source_storage self2) = Inr False
       | (Inr (remote_hash, local_hash), self2) \<Rightarrow> remote_hash = local_hash"
    unfolding delete_file_present [OF flag ex]
    by (auto split: prod.splits sum.splits if_splits)
qed

theorem delete_file_error_defers_witness:
  "truthy (AWS_FAST_COLLECTSTATIC fast) \<and>
   exists (storage (cmd s3)) ''c.css'' = Inr True \<and>
   fst (get_remote_hash (emit (cmd s3) (Exists ''c.css'')) ''c.css'') = Inl AttributeError \<and>
   delete_file fast base_deletes checksum8 (cmd s3) ''c.css'' ''c.css'' local =
     base_deletes ''c.css'' ''c.css'' local
       (snd (get_remote_hash (emit (cmd s3) (Exists ''c.css'')) ''c.css'')) \<and>
   fst (delete_file fast base_deletes checksum8 (cmd s3) ''c.css'' ''c.css'' local) = Inr True \<and>
   fst (delete_file fast base_skips checksum8 (cmd s3) ''a.css'' ''a.css'' local) = Inr False \<and>
   fst (try_hashes checksum8 (emit (cmd s3) (Exists ''a.css'')) ''a.css'' ''a.css'' local)
     = Inr (''06'', ''06'')"
proof -
  have a: "truthy (AWS_FAST_COLLECTSTATIC fast)" by (simp add: eval_defs)
  have b: "exists (storage (cmd s3)) ''c.css'' = Inr True" by (simp add: eval_defs)
  obtain s2 where c: "get_remote_hash (emit (cmd s3) (Exists ''c.css'')) ''c.css'' = (Inl AttributeError, s2)"
    by (simp add: eval_defs)
  have d: "fst (delete_file fast base_skips checksum8 (cmd s3) ''a.css'' ''a.css'' local) = Inr False"
    by (simp add: eval_defs)
  have e: "fst (base_deletes ''c.css'' ''c.css'' local s2) = Inr True"
    by (simp add: base_deletes_def)
  from delete_file_error_defers [OF a, where self = "cmd s3" and prefixed_path = "''c.css''"
      and H = checksum8 and path = "''c.css''" and source_storage = local
      and super_delete_file = base_deletes]
  have 1: "delete_file fast base_deletes checksum8 (cmd s3) ''c.css'' ''c.css'' local =
     base_deletes ''c.css'' ''c.css'' local s2"
    using b c by blast
  note t = delete_file_error_defers [OF a, where self = "cmd s3" and prefixed_path = "''a.css''"
      and H = checksum8 and path = "''a.css''" and source_storage = local
      and super_delete_file = base_skips]
  have 2: "exists (storage (cmd s3)) ''a.css'' = Inr True"
    using t [THEN conjunct2, THEN mp, OF d] by (rule conjunct1)
  have 3: "fst (try_hashes checksum8 (emit (cmd s3) (Exists ''a.css'')) ''a.css'' ''a.css'' local)
     = Inr (''06'', ''06'')"
    by (simp add: eval_defs)
  from a b c d e 1 2 3 show ?thesis by simp
qed

text \<open>
  Claim C6. The comparison tolerates the quotation marks of the entity tag: with the flag
  on and a remote object at the prefixed path, when the entity tag of its index entry is
  the local hash \<open>h\<close> wrapped in quotation marks, \<^verbatim>\<open>get_remote_hash\<close> returns \<open>h\<close> itself
  and \<^verbatim>\<open>delete_file\<close> returns \<^verbatim>\<open>False\<close>: the file is skipped.
\<close>

theorem quoted_etag_matches:
  "truthy (AWS_FAST_COLLECTSTATIC settings) \<Longrightarrow>
   exists (storage self) prefixed_path = Inr True \<Longrightarrow>
   get_entry_path (emit self (Exists prefixed_path)) prefixed_path (storage self) =
     (Inr entry_path, self1) \<Longrightarrow>
   entries (storage self) = Some (Inr index) \<Longrightarrow>
   index entry_path = Some en \<Longrightarrow>
   etag en = Some (quote # h @ [quote]) \<Longrightarrow>
   get_local_hash H (emit self1 Entries) path source_storage default_block_size = (Inr h, self2) \<Longrightarrow>
   get_remote_hash (emit self (Exists prefixed_path)) prefixed_path = (Inr h, emit self1 Entries) \<and>
   delete_file settings super_delete_file H self path prefixed_path source_storage =
     (Inr False, log self2 (skipping_message path))"
proof -
  assume flag: "truthy (AWS_FAST_COLLECTSTATIC settings)"
    and ex: "exists (storage self) prefixed_path = Inr True"
    and ep: "get_entry_path (emit self (Exists prefixed_path)) prefixed_path (storage self) =
               (Inr entry_path, self1)"
    and idx: "entries (storage self) = Some (Inr index)" "index entry_path = Some en"
    and tag: "etag en = Some (quote # h @ [quote])"
    and loc: "get_local_hash H (emit self1 Entries) path source_storage default_block_size =
               (Inr h, self2)"
  have "fst (get_local_hash H (emit self1 Entries) path source_storage default_block_size) =
          Inr h"
    using loc by simp
  then obtain m where "h = hexdigest H m"
    by (auto simp: get_local_hash_def Let_def split: sum.splits prod.splits)
  then have nq: "quote \<notin> set h"
    by (simp add: quote_notin_hexdigest)
  have st: "storage self1 = storage self"
    using storage_get_entry_path [of "emit self (Exists prefixed_path)" prefixed_path "storage self"]
      ep by (simp add: storage_emit)
  have rem: "get_remote_hash (emit self (Exists prefixed_path)) prefixed_path =
        (Inr h, emit self1 Entries)"
    using ep idx tag st drop_quotes_wrapped [OF nq]
    by (simp add: get_remote_hash_def storage_emit Let_def)
  from delete_file_present [OF flag ex, of super_delete_file H path source_storage] rem loc
  have "delete_file settings super_delete_file H self path prefixed_path source_storage =
     (Inr False, log self2 (skipping_message path))"
    by (simp add: try_hashes_def)
  with rem show ?thesis by simp
qed

theorem quoted_etag_matches_witness:
  "truthy (AWS_FAST_COLLECTSTATIC fast) \<and>
   exists (storage (cmd s3)) ''a.css'' = Inr True \<and>
   fst (get_entry_path (emit (cmd s3) (Exists ''a.css'')) ''a.css'' (storage (cmd s3))) =
     Inr ''static/a.css'' \<and>
   etag \<lparr>etag = Some (quote # ''06'' @ [quote])\<rparr> = Some (quote # ''06'' @ [quote]) \<and>
   fst (get_remote_hash (emit (cmd s3) (Exists ''a.css'')) ''a.css'') = Inr ''06'' \<and>
   fst (delete_file fast base_deletes checksum8 (cmd s3) ''a.css'' ''a.css'' local) = Inr False"
proof -
  have a: "truthy (AWS_FAST_COLLECTSTATIC fast)" by (simp add: eval_defs)
  have b: "exists (storage (cmd s3)) ''a.css'' = Inr True" by (simp add: eval_defs)
  obtain s1 where c: "get_entry_path (emit (cmd s3) (Exists ''a.css'')) ''a.css'' (storage (cmd s3)) =
     (Inr ''static/a.css'', s1)"
    by (simp add: eval_defs)
  obtain index where d: "entries (storage (cmd s3)) = Some (Inr index)"
    and e: "index ''static/a.css'' = Some \<lparr>etag = Some (quote # ''06'' @ [quote])\<rparr>"
    by (simp add: cmd_def s3_def)
  have f: "etag \<lparr>etag = Some (quote # ''06'' @ [quote])\<rparr> = Some (quote # ''06'' @ [quote])"
    by simp
  obtain s2 where g: "get_local_hash checksum8 (emit s1 Entries) ''a.css'' local default_block_size =
      (Inr ''06'', s2)"
    by (simp add: eval_defs)
  from quoted_etag_matches [OF a b c d e f g, of base_deletes] a b c
  show ?thesis by simp
qed

subsection \<open>The local hash\<close>

text \<open>
  Claim C5. For a hash object that meets the contract of \<^verbatim>\<open>hashlib\<close> and a file that
  is read without error, \<^verbatim>\<open>get_local_hash\<close> returns the same hexadecimal digest for any
  two block sizes of at least one byte, whether the content fits in one chunk or is split
  over many: the digest of the whole content fed at once.
\<close>

theorem get_local_hash_chunk_size:
  "streaming H \<Longrightarrow> source_storage path = Inr lf \<Longrightarrow> bad_offset lf = None \<Longrightarrow>
   1 \<le> n \<Longrightarrow> 1 \<le> k \<Longrightarrow>
   fst (get_local_hash H self path source_storage n) =
     fst (get_local_hash H self path source_storage k) \<and>
   fst (get_local_hash H self path source_storage n) =
     Inr (hexdigest H (if content lf = [] then md5_new H
                       else md5_update H (md5_new H) (content lf)))"
proof -
  assume H: "streaming H" and fl: "source_storage path = Inr lf"
    and ok: "bad_offset lf = None"
  have *: "fst (get_local_hash H self path source_storage j) =
     Inr (hexdigest H (if content lf = [] then md5_new H
                       else md5_update H (md5_new H) (content lf)))" if "1 \<le> j" for j
  proof -
    have "fst (hash_chunks H j (open_file lf) (md5_new H)) =
        Inr (if content lf = [] then md5_new H
             else md5_update H (md5_new H) (content lf))"
      using hash_chunks_result [OF H that, of "open_file lf" "md5_new H"] ok
      by (simp add: open_file_def)
    then show ?thesis
      using fl by (auto simp: get_local_hash_def Let_def split: prod.splits sum.splits)
  qed
  assume "1 \<le> n" and "1 \<le> k"
  then show ?thesis using * by simp
qed

theorem get_local_hash_chunk_size_witness:
  "streaming checksum8 \<and> local ''a.css'' = Inr \<lparr>content = [1, 2, 3], bad_offset = None\<rparr> \<and>
   bad_offset \<lparr>content = [1, 2, 3], bad_offset = None\<rparr> = None \<and>
   (1::int) \<le> 2 \<and> 1 \<le> default_block_size \<and>
   fst (get_local_hash checksum8 (cmd s3) ''a.css'' local 2) =
     fst (get_local_hash checksum8 (cmd s3) ''a.css'' local default_block_size) \<and>
   fst (get_local_hash checksum8 (cmd s3) ''a.css'' local 2) = Inr ''06''"
proof -
  have a: "streaming checksum8" by (rule streaming_checksum8)
  have b: "local ''a.css'' = Inr \<lparr>content = [1, 2, 3], bad_offset = None\<rparr>"
    by (simp add: local_def)
  have c: "bad_offset \<lparr>content = [1, 2, 3], bad_offset = None\<rparr> = None" by simp
  have d: "(1::int) \<le> 2" by simp
  have e: "1 \<le> default_block_size" by (simp add: default_block_size_def)
  have f: "hexdigest checksum8 (md5_update checksum8 (md5_new checksum8) [1, 2, 3]) = ''06''"
    by (simp add: eval_defs)
  note t = get_local_hash_chunk_size [where H = checksum8 and source_storage = local
      and path = "''a.css''" and lf = "\<lparr>content = [1, 2, 3], bad_offset = None\<rparr>"
      and n = 2 and k = default_block_size and self = "cmd s3", OF a b c d e]
  have g: "fst (get_local_hash checksum8 (cmd s3) ''a.css'' local 2) =
     fst (get_local_hash checksum8 (cmd s3) ''a.css'' local default_block_size)"
    using t by (rule conjunct1)
  have "fst (get_local_hash checksum8 (cmd s3) ''a.css'' local 2) =
     Inr (hexdigest checksum8 (md5_update checksum8 (md5_new checksum8) [1, 2, 3]))"
    using t [THEN conjunct2] by simp
  then have h: "fst (get_local_hash checksum8 (cmd s3) ''a.css'' local 2) = Inr ''06''"
    by (simp only: f)
  show ?thesis by (intro conjI a b c d e g h)
qed

text \<open>
  Claim C9, as stated, fails: after \<^verbatim>\<open>get_local_hash\<close> has returned the digest of
  \<^verbatim>\<open>a.css\<close>, the file object it opened is at the end of the file and is not closed.
\<close>

theorem get_local_hash_leaves_open_counterexample:
  "fst (get_local_hash checksum8 (cmd s3) ''a.css'' local 2) = Inr ''06'' \<and>
   files (snd (get_local_hash checksum8 (cmd s3) ''a.css'' local 2)) =
     [\<lparr>data = [1, 2, 3], fault = None, pos = 3, closed = False\<rparr>]"
  by (simp add: eval_defs)

text \<open>
  Claim C9, amended. \<^verbatim>\<open>get_local_hash\<close> opens one stream on the local file and never
  closes it: on every exit path, the return of the digest or an error in the middle of the
  stream, the file object it opened is still open when the method is left.
\<close>

theorem get_local_hash_leaves_open:
  "source_storage path = Inr lf \<Longrightarrow>
   \<exists>f1. files (snd (get_local_hash H self path source_storage n)) = files self @ [f1] \<and>
        \<not> closed f1"
proof -
  assume fl: "source_storage path = Inr lf"
  obtain r f1 where h: "hash_chunks H n (open_file lf) (md5_new H) = (r, f1)"
    by (cases "hash_chunks H n (open_file lf) (md5_new H)")
  have "closed f1 = closed (open_file lf)"
    using hash_chunks_open [of H n "open_file lf" "md5_new H"] h by simp
  then have "\<not> closed f1" by (simp add: open_file_def)
  moreover have "files (snd (get_local_hash H self path source_storage n)) = files self @ [f1]"
    using fl h by (cases r) (simp_all add: get_local_hash_def Let_def emit_def)
  ultimately show ?thesis by blast
qed

theorem get_local_hash_leaves_open_witness:
  "local ''c.css'' = Inr \<lparr>content = [1, 2, 3], bad_offset = Some 2\<rparr> \<and>
   fst (get_local_hash checksum8 (cmd s3) ''c.css'' local 2) = Inl IOError \<and>
   (\<exists>f1. files (snd (get_local_hash checksum8 (cmd s3) ''c.css'' local 2)) = [f1] \<and>
         \<not> closed f1)"
proof -
  have a: "local ''c.css'' = Inr \<lparr>content = [1, 2, 3], bad_offset = Some 2\<rparr>"
    by (simp add: local_def)
  have b: "fst (get_local_hash checksum8 (cmd s3) ''c.css'' local 2) = Inl IOError"
    by (simp add: eval_defs)
  from get_local_hash_leaves_open [where source_storage = local and path = "''c.css''"
      and H = checksum8 and self = "cmd s3" and n = 2, OF a] a b
  show ?thesis by (simp add: cmd_def)
qed

subsection \<open>The entry path of an unknown storage\<close>

text \<open>
  Claim C7, as stated, fails: for a storage with neither \<^verbatim>\<open>_normalize_name\<close> nor
  \<^verbatim>\<open>_clean_name\<close> and without a \<^verbatim>\<open>location\<close>, \<^verbatim>\<open>get_entry_path\<close> raises
  \<^verbatim>\<open>AttributeError\<close>.
\<close>

theorem get_entry_path_unknown_counterexample:
  "normalize_name bare = None \<and> clean_name bare = None \<and>
   fst (get_entry_path (cmd bare) ''a.css'' bare) = Inl AttributeError"
  by (simp add: eval_defs)

text \<open>
  Claim C7, amended. For a storage with neither \<^verbatim>\<open>_normalize_name\<close> nor
  \<^verbatim>\<open>_clean_name\<close>, \<^verbatim>\<open>get_entry_path\<close> logs that it is guessing; then, if the storage of
  the command has a \<^verbatim>\<open>location\<close>, it returns the location joined with the prefixed path,
  and if it has none, it raises \<^verbatim>\<open>AttributeError\<close>.
\<close>

theorem get_entry_path_unknown:
  "normalize_name stg = None \<Longrightarrow> clean_name stg = None \<Longrightarrow>
   (\<forall>loc. location (storage self) = Some loc \<longrightarrow>
      get_entry_path self prefixed_path stg =
        (Inr (os_path_join loc prefixed_path),
         log self (''Unknown storage, guessing entry path for '' @ prefixed_path))) \<and>
   (location (storage self) = None \<longrightarrow>
      get_entry_path self prefixed_path stg =
        (Inl AttributeError,
         log self (''Unknown storage, guessing entry path for '' @ prefixed_path)))"
  by (simp add: get_entry_path_def Let_def log_def emit_def)

theorem get_entry_path_unknown_witness:
  "normalize_name unknown = None \<and> clean_name unknown = None \<and>
   location (storage (cmd unknown)) = Some ''media'' \<and>
   get_entry_path (cmd unknown) ''a.css'' unknown =
     (Inr ''media/a.css'',
      (cmd unknown)\<lparr>trace := [Log ''Unknown storage, guessing entry path for a.css'']\<rparr>)"
proof -
  have a: "normalize_name unknown = None" and b: "clean_name unknown = None"
    by (simp_all add: unknown_def bare_def)
  have c: "location (storage (cmd unknown)) = Some ''media''"
    by (simp add: cmd_def unknown_def)
  from get_entry_path_unknown [OF a b, of "cmd unknown" "''a.css''"] c
  have "get_entry_path (cmd unknown) ''a.css'' unknown =
        (Inr (os_path_join ''media'' ''a.css''),
         log (cmd unknown) (''Unknown storage, guessing entry path for '' @ ''a.css''))"
    by simp
  with a b c show ?thesis
    by (simp add: os_path_join_def log_def emit_def cmd_def)
qed

subsection \<open>The constructor\<close>

text \<open>
  What the constructor does with the flag on and a storage whose \<^verbatim>\<open>preload_metadata\<close>
  is false depends on \<^verbatim>\<open>self.verbosity\<close>. Were the attribute assigned, the constructor
  would log that it forces the storage to preload and set \<^verbatim>\<open>preload_metadata\<close> to
  \<^verbatim>\<open>True\<close>. It is not assigned when Django constructs the command: the constructor raises,
  and the command, its storage included, is as it was. With the flag off the constructor
  changes nothing.
\<close>

lemma init_verbosity_assigned:
  "truthy (AWS_FAST_COLLECTSTATIC settings) \<Longrightarrow>
   preload_metadata (storage self) = Some v \<Longrightarrow> \<not> truthy v \<Longrightarrow>
   init settings (Some n) self =
     (Inr (), self\<lparr>storage := (storage self)\<lparr>preload_metadata := Some (PyBool True)\<rparr>,
                   trace := trace self @ [Log ''Forcing storage to preload metadata'']\<rparr>)"
  by (simp add: init_def log_with_def log_def emit_def)

lemma init_verbosity_unassigned:
  "truthy (AWS_FAST_COLLECTSTATIC settings) \<Longrightarrow>
   preload_metadata (storage self) = Some v \<Longrightarrow> \<not> truthy v \<Longrightarrow>
   init settings None self = (Inl AttributeError, self)"
  by (simp add: init_def log_with_def)

lemma init_flag_off:
  "\<not> truthy (AWS_FAST_COLLECTSTATIC settings) \<Longrightarrow> init settings verbosity self = (Inr (), self)"
  by (simp add: init_def)

text \<open>
  Claim C8 says that, with the flag on and a storage that does not preload, the
  constructor sets \<^verbatim>\<open>preload_metadata\<close> to \<^verbatim>\<open>True\<close> and emits a notice. The code does
  not: on the storage \<open>s3\<close>, whose \<^verbatim>\<open>preload_metadata\<close> is \<^verbatim>\<open>False\<close>, and a command
  whose \<^verbatim>\<open>verbosity\<close> is not assigned yet, the constructor raises \<^verbatim>\<open>AttributeError\<close>;
  nothing is logged and \<^verbatim>\<open>preload_metadata\<close> is still \<^verbatim>\<open>False\<close>.
\<close>

theorem init_raises_before_set_options:
  "truthy (AWS_FAST_COLLECTSTATIC fast) \<and>
   preload_metadata (storage (cmd s3)) = Some (PyBool False) \<and>
   init fast None (cmd s3) = (Inl AttributeError, cmd s3) \<and>
   trace (snd (init fast None (cmd s3))) = [] \<and>
   preload_metadata (storage (snd (init fast None (cmd s3)))) = Some (PyBool False)"
  by (simp add: eval_defs)

text \<open>
  Claim C10. For a storage without a \<^verbatim>\<open>preload_metadata\<close> attribute the constructor
  returns without an exception and changes nothing, whatever the flag and whether
  \<^verbatim>\<open>verbosity\<close> is assigned or not: the attribute is not created and nothing is logged.
\<close>

theorem init_without_attribute:
  "preload_metadata (storage self) = None \<Longrightarrow> init settings verbosity self = (Inr (), self)"
  by (simp add: init_def)

theorem init_without_attribute_witness:
  "truthy (AWS_FAST_COLLECTSTATIC fast) \<and> preload_metadata (storage (cmd bare)) = None \<and>
   init fast None (cmd bare) = (Inr (), cmd bare)"
proof -
  have a: "truthy (AWS_FAST_COLLECTSTATIC fast)" by (simp add: eval_defs)
  have b: "preload_metadata (storage (cmd bare)) = None" by (simp add: cmd_def bare_def)
  from init_without_attribute [OF b, of fast None] a b show ?thesis by simp
qed

end
